theory Spec2Isabelle
  imports Complex_Main
begin

section \<open>Quantities: a number with a physical unit\<close>

text \<open>
  The notebook \<^verbatim>\<open>nicmos_unit_conversion.ipynb\<close> computes with quantities of the units
  library: a number tagged with a unit. Every unit of the notebook that is built from
  kilogram, metre and second is modelled by its factor to the SI base unit and its exponents
  of kilogram, metre and second.

  Numbers are modelled as \<^typ>\<open>real\<close>. The cells of the notebook are given twice: first
  in exact arithmetic, where the rounding of the 64-bit floats of the notebook is left out,
  and then, for the cells whose properties depend on it, in float64 arithmetic with its
  rounding, overflow and underflow (the functions named \<open>_f64\<close>). The values \<^verbatim>\<open>inf\<close>
  and \<^verbatim>\<open>nan\<close> are not numbers of the model: where the array library would produce one
  of these (with a warning, not an exception) the model stops with \<open>NonFinite\<close>.
\<close>

type_synonym dims = "int \<times> int \<times> int"

record punit =
  u_scale :: real
  u_dims :: dims

record quantity =
  q_value :: real
  q_unit :: punit

text \<open>
  The outcomes other than a value. \<open>UnitConversionError\<close>, \<open>TypeError\<close> and
  \<open>ValueError\<close> are the exceptions that the calls of the notebook raise.
  \<open>NonFinite\<close> is not an exception (see above). \<open>NonPositiveFluxError\<close> is the error
  that the specification names for a flux that has no logarithm; no step of the notebook
  raises it.
\<close>

datatype error =
    UnitConversionError
  | TypeError
  | ValueError
  | NonFinite
  | NonPositiveFluxError

definition dimensionless :: dims where
  "dimensionless = (0, 0, 0)"

definition length_dims :: dims where
  "length_dims = (0, 1, 0)"

definition frequency_dims :: dims where
  "frequency_dims = (0, 0, -1)"

definition energy_dims :: dims where
  "energy_dims = (1, 2, -2)"

definition wavenumber_dims :: dims where
  "wavenumber_dims = (0, -1, 0)"

text \<open>Power per area and per frequency interval: \<open>kg s\<^sup>-\<^sup>2\<close>.\<close>

definition fnu_dims :: dims where
  "fnu_dims = (1, 0, -2)"

text \<open>Power per area and per wavelength interval: \<open>kg m\<^sup>-\<^sup>1 s\<^sup>-\<^sup>3\<close>.\<close>

definition flam_dims :: dims where
  "flam_dims = (1, -1, -3)"

definition div_dims :: "dims \<Rightarrow> dims \<Rightarrow> dims" where
  "div_dims a b =
     (case a of (ak, am, as) \<Rightarrow> case b of (bk, bm, bs) \<Rightarrow> (ak - bk, am - bm, as - bs))"

definition micron :: punit where
  "micron = \<lparr>u_scale = 1 / 10 ^ 6, u_dims = length_dims\<rparr>"

definition AA :: punit where
  "AA = \<lparr>u_scale = 1 / 10 ^ 10, u_dims = length_dims\<rparr>"


definition Jy :: punit where
  "Jy = \<lparr>u_scale = 1 / 10 ^ 26, u_dims = fnu_dims\<rparr>"

text \<open>\<^verbatim>\<open>u.W / (u.m * u.m * u.Hz)\<close>\<close>

definition W_m2_Hz :: punit where
  "W_m2_Hz = \<lparr>u_scale = 1, u_dims = fnu_dims\<rparr>"

text \<open>\<^verbatim>\<open>x * unit\<close> for a number \<open>x\<close>.\<close>

definition mk_quantity :: "real \<Rightarrow> punit \<Rightarrow> quantity" where
  "mk_quantity x un = \<lparr>q_value = x, q_unit = un\<rparr>"

text \<open>The value of a quantity in the SI base unit of its dimension.\<close>

definition si_value :: "quantity \<Rightarrow> real" where
  "si_value q = q_value q * u_scale (q_unit q)"

text \<open>A bare number times a quantity, and a quantity divided by a bare number: the unit
  stays. Dividing by zero gives \<^verbatim>\<open>inf\<close> or \<^verbatim>\<open>nan\<close> in the notebook.\<close>

definition scalar_mul :: "real \<Rightarrow> quantity \<Rightarrow> quantity" where
  "scalar_mul x q = q\<lparr>q_value := x * q_value q\<rparr>"

definition div_scalar :: "quantity \<Rightarrow> real \<Rightarrow> error + quantity" where
  "div_scalar q x = (if x = 0 then Inl NonFinite else Inr (q\<lparr>q_value := q_value q / x\<rparr>))"

text \<open>A quantity divided by a quantity: the values are divided, and so are the units.\<close>

definition div_unit :: "punit \<Rightarrow> punit \<Rightarrow> punit" where
  "div_unit a b = \<lparr>u_scale = u_scale a / u_scale b, u_dims = div_dims (u_dims a) (u_dims b)\<rparr>"

definition div_quantity :: "quantity \<Rightarrow> quantity \<Rightarrow> error + quantity" where
  "div_quantity a b =
     (if q_value b = 0 then Inl NonFinite
      else Inr \<lparr>q_value = q_value a / q_value b, q_unit = div_unit (q_unit a) (q_unit b)\<rparr>)"

text \<open>
  \<^verbatim>\<open>float(q)\<close>, which \<^verbatim>\<open>math.log10(q)\<close> calls on a quantity: the value in the unscaled
  dimensionless unit; \<^verbatim>\<open>TypeError\<close> for a quantity that has a dimension.
\<close>

definition to_float :: "quantity \<Rightarrow> error + real" where
  "to_float q = (if u_dims (q_unit q) = dimensionless then Inr (si_value q) else Inl TypeError)"

section \<open>Physical constants\<close>

text \<open>Speed of light in m/s, Planck constant in J s, Boltzmann constant in J/K (SI 2019).\<close>

definition c_SI :: real where
  "c_SI = 299792458"

definition h_SI :: real where
  "h_SI = 662607015 / 10 ^ 42"

definition k_B_SI :: real where
  "k_B_SI = 1380649 / 10 ^ 29"

section \<open>Example 3: power law and I magnitude\<close>

text \<open>
  \<^verbatim>\<open>nu.to(u.Hz, u.spectral())\<close>: the frequency in Hz of a frequency, of a wavelength
  (\<open>c / \<lambda>\<close>), of a photon energy (\<open>E / h\<close>) or of a wavenumber (\<open>c k\<close>); any other unit
  raises \<^verbatim>\<open>UnitConversionError\<close>. A wavelength of zero gives \<^verbatim>\<open>inf\<close>.
\<close>

definition to_Hz_spectral :: "quantity \<Rightarrow> error + real" where
  "to_Hz_spectral nu =
     (let d = u_dims (q_unit nu); x = si_value nu in
      if d = frequency_dims then Inr x
      else if d = length_dims then (if x = 0 then Inl NonFinite else Inr (c_SI / x))
      else if d = energy_dims then Inr (x / h_SI)
      else if d = wavenumber_dims then Inr (c_SI * x)
      else Inl UnitConversionError)"

definition spectral_index :: real where
  "spectral_index = 0.25"

text \<open>
  \<^verbatim>\<open>
  def powerlaw_ex3(nu):
      spectral_index = 0.25
      return (nu.to(u.Hz, u.spectral()) ** spectral_index).value
  \<close>
  The result is a bare number. A negative frequency gives \<^verbatim>\<open>nan\<close>.
\<close>

definition powerlaw_ex3 :: "quantity \<Rightarrow> error + real" where
  "powerlaw_ex3 nu =
     (case to_Hz_spectral nu of
        Inl e \<Rightarrow> Inl e
      | Inr f \<Rightarrow> if f < 0 then Inl NonFinite else Inr (f powr spectral_index))"

definition input_flux_ex3 :: quantity where
  "input_flux_ex3 = mk_quantity (1 / 10 ^ 23) W_m2_Hz"

definition input_wave_ex3 :: quantity where
  "input_wave_ex3 = mk_quantity 1 micron"

definition output_wave_ex3 :: quantity where
  "output_wave_ex3 = mk_quantity 0.9 micron"

text \<open>
  \<^verbatim>\<open>flux_ex3 = powerlaw_ex3(output_wave_ex3) * input_flux_ex3 / powerlaw_ex3(input_wave_ex3)\<close>,
  as a function of the three variables of the cell.
\<close>

definition flux_ex3 :: "quantity \<Rightarrow> quantity \<Rightarrow> quantity \<Rightarrow> error + quantity" where
  "flux_ex3 output_wave input_flux input_wave =
     (case powerlaw_ex3 output_wave of
        Inl e \<Rightarrow> Inl e
      | Inr p_out \<Rightarrow>
          (case powerlaw_ex3 input_wave of
             Inl e \<Rightarrow> Inl e
           | Inr p_in \<Rightarrow> div_scalar (scalar_mul p_out input_flux) p_in))"

definition imag_zpt :: quantity where
  "imag_zpt = mk_quantity 2250 Jy"

text \<open>
  \<^verbatim>\<open>i = -2.5 * math.log10(flux_ex3 / imag_zpt)\<close>, as a function of the flux (the variable
  \<^verbatim>\<open>i\<close> of the notebook). \<^verbatim>\<open>math.log10\<close> raises \<^verbatim>\<open>ValueError\<close> for a number that is
  not positive.
\<close>

definition i_ex3 :: "quantity \<Rightarrow> error + real" where
  "i_ex3 flux =
     (case div_quantity flux imag_zpt of
        Inl e \<Rightarrow> Inl e
      | Inr r \<Rightarrow>
          (case to_float r of
             Inl e \<Rightarrow> Inl e
           | Inr x \<Rightarrow> if x \<le> 0 then Inl ValueError else Inr (- 2.5 * log 10 x)))"

text \<open>The value of a flux density per frequency in Jy.\<close>

definition in_Jy :: "quantity \<Rightarrow> real" where
  "in_Jy q = si_value q / u_scale Jy"

section \<open>Example 1: Jy to AB magnitude\<close>

text \<open>
  \<^verbatim>\<open>q.to(u.m, u.spectral())\<close>: the wavelength in metres of a wavelength, of a frequency
  (\<open>c / \<nu>\<close>), of a photon energy (\<open>h c / E\<close>) or of a wavenumber (\<open>1 / k\<close>).
\<close>

definition to_m_spectral :: "quantity \<Rightarrow> error + real" where
  "to_m_spectral w =
     (let d = u_dims (q_unit w); x = si_value w in
      if d = length_dims then Inr x
      else if d = frequency_dims \<or> d = energy_dims \<or> d = wavenumber_dims then
        (if x = 0 then Inl NonFinite
         else Inr (if d = frequency_dims then c_SI / x
                   else if d = energy_dims then h_SI * c_SI / x
                   else 1 / x))
      else Inl UnitConversionError)"

text \<open>
  Modelled from the spec: the AB unit of the units library, which is not a file of the
  repository. The specification calls the AB magnitude ``a logarithmic flux-density scale
  with a fixed zero-point defined per unit frequency'' and leaves the zero point to ``the
  library's own constant''. That constant is \<^verbatim>\<open>10.**(48.6/-2.5) erg / (s cm2 Hz)\<close>,
  the flux density of \<open>-2.5 log\<^sub>1\<^sub>0 f\<^sub>\<nu> - 48.6 = 0\<close>; one \<open>erg / (s cm\<^sup>2 Hz)\<close> is
  \<open>10\<^sup>-\<^sup>3 W / (m\<^sup>2 Hz)\<close>.
\<close>

definition AB :: punit where
  "AB = \<lparr>u_scale = 10 powr (48.6 / - 2.5) / 10 ^ 3, u_dims = fnu_dims\<rparr>"

text \<open>
  Modelled from the spec: the magnitude function of the units library, ``magnitude =
  -2.5 log10(flux / zero-point flux)'', here of a flux \<open>x\<close> already expressed in the zero
  point. The array library gives \<^verbatim>\<open>inf\<close> or \<^verbatim>\<open>nan\<close> for a value that is not positive.
\<close>

definition from_physical :: "real \<Rightarrow> error + real" where
  "from_physical x = (if x \<le> 0 then Inl NonFinite else Inr (- 2.5 * log 10 x))"

text \<open>
  Modelled from the spec: the conversion \<^verbatim>\<open>flux.to(u.ABmag, u.spectral_density(wave))\<close>
  of the units library. A flux density per frequency is expressed in the AB unit; a flux
  density per wavelength is first turned into one per frequency at the wavelength \<open>wave\<close>
  (\<open>f\<^sub>\<nu> = f\<^sub>\<lambda> \<lambda>\<^sup>2 / c\<close>), the ``wavelength or frequency context'' of the specification.
\<close>

definition to_ABmag :: "quantity \<Rightarrow> quantity \<Rightarrow> error + real" where
  "to_ABmag flux wave =
     (let d = u_dims (q_unit flux) in
      if d = fnu_dims then from_physical (si_value flux / u_scale AB)
      else if d = flam_dims then
        (case to_m_spectral wave of
           Inl e \<Rightarrow> Inl e
         | Inr lam \<Rightarrow> from_physical (si_value flux * lam\<^sup>2 / c_SI / u_scale AB))
      else Inl UnitConversionError)"

definition input_flux_ex1 :: quantity where
  "input_flux_ex1 = mk_quantity (1 / 10 ^ 13) Jy"

definition input_wave_ex1 :: quantity where
  "input_wave_ex1 = mk_quantity 1 micron"

definition abmag_ex1 :: "error + real" where
  "abmag_ex1 = to_ABmag input_flux_ex1 input_wave_ex1"

section \<open>Example 2: photon flux to flux per frequency for a blackbody\<close>

text \<open>
  Modelled from the spec: the source spectrum and the blackbody model of the synthetic
  photometry library, which is not a file of the repository. A source spectrum is its
  function from the wavelength in Angstrom to the flux in PHOTLAM (``photons per unit area
  per unit time per unit wavelength'': per \<open>cm\<^sup>2\<close>, second and Angstrom). For the blackbody the
  specification says: ``apply the Planck radiance law at the given temperature and convert
  radiance to flux density in the model's natural unit''.
\<close>

type_synonym source_spectrum = "real \<Rightarrow> real"

text \<open>
  Modelled from the spec: the ``Planck radiance law'' of the library's blackbody, per
  frequency, \<open>2 h \<nu>\<^sup>3 / c\<^sup>2 / (e\<^sup>h\<^sup>\<nu>\<^sup>/\<^sup>k\<^sup>T - 1)\<close> in \<open>erg / (s cm\<^sup>2 Hz sr)\<close>, at a wavelength in
  Angstrom.
\<close>

definition blackbody_nu :: "real \<Rightarrow> real \<Rightarrow> real" where
  "blackbody_nu temperature wave_AA =
     (let freq = c_SI / (wave_AA / 10 ^ 10) in
      10 ^ 3 * (2 * h_SI * freq ^ 3 / c_SI\<^sup>2 / (exp (h_SI * freq / (k_B_SI * temperature)) - 1)))"

text \<open>Planck constant in erg s.\<close>

definition h_cgs :: real where
  "h_cgs = h_SI * 10 ^ 7"

text \<open>
  Modelled from the spec: the library's conversions at a wavelength between a flux per
  frequency in FNU (\<open>erg / (s cm\<^sup>2 Hz)\<close>) and a photon flux in PHOTLAM, which ``depend on
  the photon energy at a given wavelength'': a photon of wavelength \<open>\<lambda>\<close> carries
  \<open>h c / \<lambda>\<close>, and \<open>f\<^sub>\<nu> = f\<^sub>\<lambda> \<lambda>\<^sup>2 / c\<close>.
\<close>

definition fnu_to_photlam :: "real \<Rightarrow> real \<Rightarrow> real" where
  "fnu_to_photlam wave_AA x = x / (wave_AA * h_cgs)"

definition photlam_to_fnu :: "real \<Rightarrow> real \<Rightarrow> real" where
  "photlam_to_fnu wave_AA x = h_cgs * x * wave_AA"

text \<open>
  Modelled from the spec: the library's \<^verbatim>\<open>BlackBodyNorm1D\<close>, the blackbody in ``the
  model's natural unit'' PHOTLAM, scaled to a star of one solar radius at one kiloparsec
  (lengths in metres).
\<close>

definition R_sun :: real where
  "R_sun = 695700000"

definition kpc :: real where
  "kpc = 30856775814913673 * 10 ^ 3"

definition omega :: real where
  "omega = pi * (R_sun / kpc)\<^sup>2"

definition BlackBodyNorm1D :: "real \<Rightarrow> source_spectrum" where
  "BlackBodyNorm1D temperature wave_AA =
     fnu_to_photlam wave_AA (blackbody_nu temperature wave_AA) * omega"

text \<open>\<^verbatim>\<open>bb_ex2 = SourceSpectrum(BlackBodyNorm1D, temperature=5500*u.K)\<close>\<close>

definition bb_ex2 :: source_spectrum where
  "bb_ex2 = BlackBodyNorm1D 5500"

text \<open>
  Modelled from the spec: the call \<^verbatim>\<open>sp(wave)\<close> of a source spectrum of the library,
  ``evaluate(wavelengthOrFrequency)''. The wavelength is taken in Angstrom; the library
  raises \<^verbatim>\<open>ZeroWavelength\<close> for a wavelength that is not positive. The result is in
  PHOTLAM. \<open>Units\<close> wraps an outcome of the units library.
\<close>

datatype synphot_error = ZeroWavelength | Units error

definition call_spectrum :: "source_spectrum \<Rightarrow> quantity \<Rightarrow> synphot_error + real" where
  "call_spectrum sp wave =
     (case to_m_spectral wave of
        Inl e \<Rightarrow> Inl (Units e)
      | Inr lam \<Rightarrow> if lam \<le> 0 then Inl ZeroWavelength else Inr (sp (lam * 10 ^ 10)))"

text \<open>Modelled from the spec: the call \<^verbatim>\<open>sp(wave, flux_unit=syn_u.FNU)\<close> of the library,
  the evaluation converted to FNU at that wavelength.\<close>

definition call_spectrum_FNU :: "source_spectrum \<Rightarrow> quantity \<Rightarrow> synphot_error + real" where
  "call_spectrum_FNU sp wave =
     (case to_m_spectral wave of
        Inl e \<Rightarrow> Inl (Units e)
      | Inr lam \<Rightarrow>
          if lam \<le> 0 then Inl ZeroWavelength
          else Inr (photlam_to_fnu (lam * 10 ^ 10) (sp (lam * 10 ^ 10))))"

text \<open>
  \<^verbatim>\<open>factor_ex2 = input_flux_ex2 / bb_ex2(input_wave_ex2)\<close> with the input flux a number in
  PHOTLAM, as a function of the variables of the cell. The quotient of two fluxes in PHOTLAM
  is a bare number.
\<close>

definition factor_ex2 :: "source_spectrum \<Rightarrow> real \<Rightarrow> quantity \<Rightarrow> synphot_error + real" where
  "factor_ex2 bb input_flux input_wave =
     (case call_spectrum bb input_wave of
        Inl e \<Rightarrow> Inl e
      | Inr y \<Rightarrow> if y = 0 then Inl (Units NonFinite) else Inr (input_flux / y))"

text \<open>\<^verbatim>\<open>input_ex2 = bb_ex2 * factor_ex2\<close>: the spectrum scaled by the factor.\<close>

definition input_ex2 :: "source_spectrum \<Rightarrow> real \<Rightarrow> source_spectrum" where
  "input_ex2 bb factor = (\<lambda>wave_AA. bb wave_AA * factor)"

definition input_flux_ex2 :: real where
  "input_flux_ex2 = 1"

definition input_wave_ex2 :: quantity where
  "input_wave_ex2 = mk_quantity 0.5 micron"

definition output_wave_ex2 :: quantity where
  "output_wave_ex2 = mk_quantity 0.6 micron"

text \<open>\<^verbatim>\<open>flux_ex2 = input_ex2(output_wave_ex2, flux_unit=syn_u.FNU)\<close>, as a function of the
  variables of the cells of the example.\<close>

definition flux_ex2 ::
  "source_spectrum \<Rightarrow> real \<Rightarrow> quantity \<Rightarrow> quantity \<Rightarrow> synphot_error + real" where
  "flux_ex2 bb input_flux input_wave output_wave =
     (case factor_ex2 bb input_flux input_wave of
        Inl e \<Rightarrow> Inl e
      | Inr factor \<Rightarrow> call_spectrum_FNU (input_ex2 bb factor) output_wave)"

section \<open>The examples end to end\<close>


text \<open>Example 3: the cells that compute \<^verbatim>\<open>flux_ex3\<close> and then \<^verbatim>\<open>i\<close>, at the values of
  the notebook.\<close>

definition example3 :: "error + real" where
  "example3 =
     (case flux_ex3 output_wave_ex3 input_flux_ex3 input_wave_ex3 of
        Inl e \<Rightarrow> Inl e
      | Inr flux \<Rightarrow> i_ex3 flux)"

text \<open>The flux of example 3 over the zero point: \<open>(10/9)\<^sup>0\<^sup>.\<^sup>2\<^sup>5 \<times> 1000 / 2250\<close>.\<close>

definition ratio_ex3 :: real where
  "ratio_ex3 = (10 / 9) powr spectral_index * (4 / 9)"

text \<open>Example 2: the cells from \<^verbatim>\<open>bb_ex2\<close> to \<^verbatim>\<open>flux_ex2\<close>, at the values of the
  notebook.\<close>

definition example2 :: "synphot_error + real" where
  "example2 = flux_ex2 bb_ex2 input_flux_ex2 input_wave_ex2 output_wave_ex2"

text \<open>The exponent \<open>h \<nu> / (k T)\<close> of Planck's law at a wavelength in Angstrom.\<close>

definition boltz :: "real \<Rightarrow> real \<Rightarrow> real" where
  "boltz temperature wave_AA = h_SI * (c_SI / (wave_AA / 10 ^ 10)) / (k_B_SI * temperature)"

section \<open>Float64 arithmetic\<close>

text \<open>
  The notebook computes in IEEE 754 binary64: the result of every operation is the double
  nearest to the exact result, ties to even; it is \<^verbatim>\<open>inf\<close> beyond the largest double
  and zero below half of the smallest subnormal double. The power and the logarithm of
  the C library are taken as correctly rounded, and the scale of a unit as exact.
\<close>












section \<open>The I magnitude\<close>

lemma i_ex3_ratio:
  assumes "u_dims (q_unit flux) = fnu_dims"
  shows "i_ex3 flux =
    (if in_Jy flux / 2250 \<le> 0 then Inl ValueError else Inr (- 2.5 * log 10 (in_Jy flux / 2250)))"
  using assms
  by (simp add: i_ex3_def div_quantity_def imag_zpt_def mk_quantity_def Jy_def to_float_def
      div_unit_def div_dims_def fnu_dims_def dimensionless_def si_value_def in_Jy_def)


text \<open>
  C7 as the notebook has it: for every flux density that is zero or negative the magnitude
  computation fails, and the exception is \<^verbatim>\<open>ValueError\<close>, the one that
  \<^verbatim>\<open>math.log10\<close> raises.
\<close>

theorem i_ex3_nonpositive:
  assumes "u_dims (q_unit flux) = fnu_dims" and "0 < u_scale (q_unit flux)" and "q_value flux \<le> 0"
  shows "i_ex3 flux = Inl ValueError"
proof -
  have "in_Jy flux / 2250 \<le> 0"
    using assms by (simp add: in_Jy_def si_value_def Jy_def mult_le_0_iff)
  then show ?thesis
    using i_ex3_ratio [OF assms(1)] by simp
qed

theorem i_ex3_nonpositive_witness:
  "q_value (mk_quantity (- 1) Jy) \<le> 0 \<and> i_ex3 (mk_quantity (- 1) Jy) = Inl ValueError"
  using i_ex3_nonpositive [of "mk_quantity (- 1) Jy"]
  by (simp add: mk_quantity_def Jy_def)

text \<open>
  C7 as it is written fails: at a flux of 0 Jy the failure is \<^verbatim>\<open>ValueError\<close>, which is
  not the \<open>NonPositiveFluxError\<close> of the specification.
\<close>

theorem i_ex3_zero_flux_error:
  "q_value (mk_quantity 0 Jy) \<le> 0 \<and> i_ex3 (mk_quantity 0 Jy) = Inl ValueError \<and>
   i_ex3 (mk_quantity 0 Jy) \<noteq> Inl NonPositiveFluxError"
  using i_ex3_ratio [of "mk_quantity 0 Jy"]
  by (simp add: mk_quantity_def Jy_def in_Jy_def si_value_def)

section \<open>The power law\<close>



lemma powerlaw_ex3_wavelength:
  assumes "u_dims (q_unit w) = length_dims" and "0 < si_value w"
  shows "powerlaw_ex3 w = Inr ((c_SI / si_value w) powr spectral_index)"
    and "0 < (c_SI / si_value w) powr spectral_index"
  using assms
  by (simp_all add: powerlaw_ex3_def to_Hz_spectral_def length_dims_def frequency_dims_def
      c_SI_def Let_def)

lemma flux_ex3_keeps_unit:
  assumes "flux_ex3 output_wave input_flux input_wave = Inr q"
  shows "q_unit q = q_unit input_flux"
  using assms
  by (auto simp add: flux_ex3_def div_scalar_def scalar_mul_def split: sum.splits if_splits)

text \<open>
  C10: the power law returns a bare number (its type is \<^typ>\<open>real\<close>), and for every pair
  of positive wavelengths the normalised flux is computed and carries the unit of the input
  flux, whatever that unit is.
\<close>

theorem flux_ex3_unit:
  assumes "u_dims (q_unit output_wave) = length_dims" and "0 < si_value output_wave"
    and "u_dims (q_unit input_wave) = length_dims" and "0 < si_value input_wave"
  shows "\<exists>q. flux_ex3 output_wave input_flux input_wave = Inr q \<and> q_unit q = q_unit input_flux"
proof -
  from powerlaw_ex3_wavelength [OF assms(3,4)] powerlaw_ex3_wavelength(1) [OF assms(1,2)]
  obtain q where "flux_ex3 output_wave input_flux input_wave = Inr q"
    by (simp add: flux_ex3_def div_scalar_def)
  with flux_ex3_keeps_unit [OF this] show ?thesis by blast
qed

theorem flux_ex3_unit_witness:
  "\<exists>q. flux_ex3 output_wave_ex3 input_flux_ex3 input_wave_ex3 = Inr q \<and> q_unit q = W_m2_Hz"
  using flux_ex3_unit [of output_wave_ex3 input_wave_ex3 input_flux_ex3]
  by (simp add: output_wave_ex3_def input_wave_ex3_def input_flux_ex3_def mk_quantity_def
      micron_def si_value_def)

section \<open>Example 3 end to end\<close>

lemma log10_lower:
  assumes "0 < y" and "0 < n" and "1 \<le> y ^ n * 10 ^ k"
  shows "- real k / real n \<le> log 10 (y::real)"
proof -
  have "log 10 1 \<le> log 10 (y ^ n * 10 ^ k)"
    using assms by (subst log_le_cancel_iff) simp_all
  also have "\<dots> = real n * log 10 y + real k"
    using assms by (simp add: log_mult log_nat_power)
  finally have "- real k \<le> real n * log 10 y" by simp
  moreover have "0 < real n" using assms(2) by simp
  ultimately show ?thesis
    by (simp add: field_simps)
qed

lemma log10_upper:
  assumes "0 < y" and "0 < n" and "y ^ n * 10 ^ k \<le> 1"
  shows "log 10 (y::real) \<le> - real k / real n"
proof -
  have "log 10 (y ^ n * 10 ^ k) \<le> log 10 1"
    using assms by (subst log_le_cancel_iff) simp_all
  moreover have "log 10 (y ^ n * 10 ^ k) = real n * log 10 y + real k"
    using assms by (simp add: log_mult log_nat_power)
  ultimately have "real n * log 10 y \<le> - real k" by simp
  moreover have "0 < real n" using assms(2) by simp
  ultimately show ?thesis
    by (simp add: field_simps)
qed

lemma powerlaw_quotient_ex3:
  "(c_SI / si_value output_wave_ex3) powr spectral_index /
     (c_SI / si_value input_wave_ex3) powr spectral_index = (10 / 9) powr spectral_index"
  by (simp add: powr_divide [symmetric] output_wave_ex3_def input_wave_ex3_def mk_quantity_def
      micron_def si_value_def c_SI_def)

lemma flux_ex3_value:
  "flux_ex3 output_wave_ex3 input_flux_ex3 input_wave_ex3 =
     Inr (mk_quantity ((10 / 9) powr spectral_index / 10 ^ 23) W_m2_Hz)"
proof -
  have out: "u_dims (q_unit output_wave_ex3) = length_dims" "0 < si_value output_wave_ex3"
    by (simp_all add: output_wave_ex3_def mk_quantity_def micron_def si_value_def)
  have inp: "u_dims (q_unit input_wave_ex3) = length_dims" "0 < si_value input_wave_ex3"
    by (simp_all add: input_wave_ex3_def mk_quantity_def micron_def si_value_def)
  let ?po = "(c_SI / si_value output_wave_ex3) powr spectral_index"
  let ?pi = "(c_SI / si_value input_wave_ex3) powr spectral_index"
  have "flux_ex3 output_wave_ex3 input_flux_ex3 input_wave_ex3 =
      Inr (mk_quantity (?po * (1 / 10 ^ 23) / ?pi) W_m2_Hz)"
    using powerlaw_ex3_wavelength [OF out] powerlaw_ex3_wavelength [OF inp]
    by (simp add: flux_ex3_def div_scalar_def scalar_mul_def input_flux_ex3_def mk_quantity_def)
  moreover have "?po * (1 / 10 ^ 23) / ?pi = (?po / ?pi) / 10 ^ 23" by simp
  ultimately show ?thesis by (simp only: powerlaw_quotient_ex3)
qed

lemma example3_value: "example3 = Inr (- 2.5 * log 10 ratio_ex3)"
proof -
  have pos: "0 < (10 / 9 :: real) powr spectral_index" by simp
  let ?f = "mk_quantity ((10 / 9) powr spectral_index / 10 ^ 23) W_m2_Hz"
  have "u_dims (q_unit ?f) = fnu_dims" by (simp add: mk_quantity_def W_m2_Hz_def)
  from i_ex3_ratio [OF this] have "i_ex3 ?f =
     (if in_Jy ?f / 2250 \<le> 0 then Inl ValueError else Inr (- 2.5 * log 10 (in_Jy ?f / 2250)))" .
  moreover have "in_Jy ?f / 2250 = ratio_ex3"
    by (simp add: in_Jy_def si_value_def mk_quantity_def W_m2_Hz_def Jy_def ratio_ex3_def)
  moreover have "0 < ratio_ex3" using pos by (simp add: ratio_ex3_def)
  ultimately have "i_ex3 ?f = Inr (- 2.5 * log 10 ratio_ex3)" by simp
  then show ?thesis by (simp add: example3_def flux_ex3_value)
qed

lemma ratio_ex3_pow4: "ratio_ex3 ^ 4 = 2560 / 59049"
proof -
  have "((10 / 9 :: real) powr (1 / 4)) ^ 4 = (10 / 9) powr (1 / 4 * 4)"
    by (simp only: powr_powr [symmetric] powr_numeral powr_gt_zero) simp
  then have "((10 / 9 :: real) powr spectral_index) ^ 4 = 10 / 9"
    by (simp add: spectral_index_def)
  moreover have "ratio_ex3 ^ 4 = ((10 / 9) powr spectral_index) ^ 4 * (4 / 9) ^ 4"
    unfolding ratio_ex3_def by (rule power_mult_distrib)
  ultimately show ?thesis by (simp add: power_divide)
qed

lemma log10_ratio_ex3: "- 11 / 32 \<le> log 10 ratio_ex3" "log 10 ratio_ex3 \<le> - 27 / 80"
proof -
  have pos: "0 < ratio_ex3" by (simp add: ratio_ex3_def)
  have four: "log 10 (ratio_ex3 ^ 4) = 4 * log 10 ratio_ex3"
    using pos by (simp add: log_nat_power)
  have "- real 11 / real 8 \<le> log 10 (2560 / 59049 :: real)"
    by (rule log10_lower) (simp_all add: power_divide)
  then show "- 11 / 32 \<le> log 10 ratio_ex3"
    using four by (simp add: ratio_ex3_pow4)
  have "log 10 (2560 / 59049 :: real) \<le> - real 27 / real 20"
    by (rule log10_upper) (simp_all add: power_divide)
  then show "log 10 ratio_ex3 \<le> - 27 / 80"
    using four by (simp add: ratio_ex3_pow4)
qed

text \<open>
  C3: the power law of index 0.25, normalised to \<open>10\<^sup>-\<^sup>2\<^sup>3 W / (m\<^sup>2 Hz)\<close> at 1 micron and
  evaluated at 0.9 micron, has an I magnitude (zero point 2250 Jy) within 0.01 of 0.85.
\<close>

theorem example3_magnitude: "\<exists>m. example3 = Inr m \<and> \<bar>m - 0.85\<bar> \<le> 0.01"
proof -
  have "\<bar>- 2.5 * log 10 ratio_ex3 - 0.85\<bar> \<le> 0.01"
    using log10_ratio_ex3 unfolding abs_le_iff by auto
  then show ?thesis by (simp only: example3_value) blast
qed

section \<open>Example 1 end to end\<close>

lemma from_physical_powr: "from_physical (10 powr a) = Inr (- 2.5 * a)"
  by (simp add: from_physical_def not_le)

lemma ex1_ratio: "si_value input_flux_ex1 / u_scale AB = 10 powr (- 414 / 25)"
proof -
  have "10 powr (- 414 / 25 :: real) = 10 powr (- 36 + 486 / 25)" by simp
  also have "\<dots> = 10 powr (- 36) * 10 powr (486 / 25 :: real)" by (rule powr_add)
  also have "10 powr (- 36 :: real) = 1 / 10 ^ 36" by (simp add: powr_minus_divide)
  finally have rhs: "10 powr (- 414 / 25 :: real) = 10 powr (486 / 25) / 10 ^ 36" by simp
  have "u_scale AB = 10 powr (- (486 / 25)) / 10 ^ 3" by (simp add: AB_def)
  then have "si_value input_flux_ex1 / u_scale AB = 10 powr (486 / 25) / 10 ^ 36"
    by (simp add: input_flux_ex1_def mk_quantity_def Jy_def si_value_def powr_minus_divide)
  then show ?thesis by (simp only: rhs)
qed

lemma abmag_ex1_value: "abmag_ex1 = Inr (207 / 5)"
proof -
  have "abmag_ex1 = from_physical (si_value input_flux_ex1 / u_scale AB)"
    by (simp add: abmag_ex1_def to_ABmag_def input_flux_ex1_def mk_quantity_def Jy_def)
  then show ?thesis
    by (simp only: ex1_ratio from_physical_powr) simp
qed

text \<open>
  C1 as the notebook has it: \<open>10\<^sup>-\<^sup>1\<^sup>3\<close> Jy is AB magnitude 41.40, since the AB unit of the
  library is the flux density of \<open>-2.5 log\<^sub>1\<^sub>0 f = 48.6\<close> in \<open>erg / (s cm\<^sup>2 Hz)\<close>.
\<close>

theorem abmag_ex1_is_41_40: "\<exists>m. abmag_ex1 = Inr m \<and> \<bar>m - 41.40\<bar> \<le> 0.01"
proof -
  have "\<bar>(207 / 5 :: real) - 41.40\<bar> \<le> 0.01" by simp
  with abmag_ex1_value show ?thesis by blast
qed

text \<open>
  C1 as it is written fails: the magnitude is 0.03 away from 41.43, the number that the
  notebook quotes from the web form it replaces.
\<close>

theorem abmag_ex1_not_41_43:
  "abmag_ex1 = Inr (207 / 5) \<and> \<not> \<bar>(207 / 5 :: real) - 41.43\<bar> \<le> 0.01"
  using abmag_ex1_value by simp

section \<open>Example 2 end to end\<close>

lemma exp_lower_poly:
  assumes "0 \<le> (x::real)"
  shows "(\<Sum>m<n. x ^ m / fact m) \<le> exp x"
proof -
  from Maclaurin_exp_le [of x n] obtain t where
    "exp x = (\<Sum>m<n. x ^ m / fact m) + exp t / fact n * x ^ n" by blast
  moreover have "0 \<le> exp t / fact n * x ^ n" using assms by simp
  ultimately show ?thesis by simp
qed

lemma exp_upper_poly:
  assumes "0 \<le> (x::real)" and "x \<le> 1"
  shows "exp x \<le> (\<Sum>m<n. x ^ m / fact m) + 3 * x ^ n / fact n"
proof -
  from Maclaurin_exp_le [of x n] obtain t where
    t: "\<bar>t\<bar> \<le> \<bar>x\<bar>" and e: "exp x = (\<Sum>m<n. x ^ m / fact m) + exp t / fact n * x ^ n" by blast
  have "t \<le> 1" using t assms by simp
  then have "exp t \<le> exp 1" by simp
  also have "\<dots> \<le> 3" by (rule exp_le)
  finally have "exp t * (x ^ n / fact n) \<le> 3 * (x ^ n / fact n)"
    using assms by (intro mult_right_mono) simp_all
  with e show ?thesis by simp
qed

lemma blackbody_nu_pos:
  assumes "0 < temperature" and "0 < wave_AA"
  shows "0 < blackbody_nu temperature wave_AA"
proof -
  define freq where "freq = c_SI / (wave_AA / 10 ^ 10)"
  have freq: "0 < freq" using assms by (simp add: freq_def c_SI_def)
  have h: "0 < h_SI" and k: "0 < k_B_SI" and c: "0 < c_SI"
    by (simp_all add: h_SI_def k_B_SI_def c_SI_def)
  have "0 < h_SI * freq / (k_B_SI * temperature)"
    using freq h k assms by simp
  then have "0 < exp (h_SI * freq / (k_B_SI * temperature)) - 1"
    by simp
  with divide_pos_pos [of "2 * h_SI * freq ^ 3 / c_SI\<^sup>2"] freq h c have "0 < 2 * h_SI * freq ^ 3 / c_SI\<^sup>2 / (exp (h_SI * freq / (k_B_SI * temperature)) - 1)"
    by simp
  then show ?thesis
    by (simp add: blackbody_nu_def Let_def freq_def)
qed

lemma omega_pos: "0 < omega"
  by (simp add: omega_def R_sun_def kpc_def)

lemma h_cgs_pos: "0 < h_cgs"
  by (simp add: h_cgs_def h_SI_def)

lemma bb_ex2_pos: "0 < wave_AA \<Longrightarrow> 0 < bb_ex2 wave_AA"
  unfolding bb_ex2_def BlackBodyNorm1D_def fnu_to_photlam_def
  using blackbody_nu_pos [of 5500 wave_AA] omega_pos h_cgs_pos
  by (intro mult_pos_pos divide_pos_pos) simp_all

lemma example2_value:
  "example2 = Inr (h_cgs * 5000 * (blackbody_nu 5500 6000 / blackbody_nu 5500 5000))"
proof -
  have inw: "to_m_spectral input_wave_ex2 = Inr (5000 / 10 ^ 10)"
    by (simp add: to_m_spectral_def input_wave_ex2_def mk_quantity_def micron_def si_value_def)
  have outw: "to_m_spectral output_wave_ex2 = Inr (6000 / 10 ^ 10)"
    by (simp add: to_m_spectral_def output_wave_ex2_def mk_quantity_def micron_def si_value_def)
  have nz: "bb_ex2 5000 \<noteq> 0" using bb_ex2_pos [of 5000] by simp
  have "example2 = Inr (h_cgs * (bb_ex2 6000 * (1 / bb_ex2 5000)) * 6000)"
    using nz by (simp add: example2_def flux_ex2_def factor_ex2_def call_spectrum_def
        call_spectrum_FNU_def inw outw input_ex2_def photlam_to_fnu_def input_flux_ex2_def)
  moreover have "bb_ex2 6000 * (1 / bb_ex2 5000) * 6000 =
      5000 * (blackbody_nu 5500 6000 / blackbody_nu 5500 5000)"
    using omega_pos h_cgs_pos blackbody_nu_pos [of 5500 5000]
    by (simp add: bb_ex2_def BlackBodyNorm1D_def fnu_to_photlam_def field_simps)
  then have "h_cgs * (bb_ex2 6000 * (1 / bb_ex2 5000)) * 6000 =
      h_cgs * 5000 * (blackbody_nu 5500 6000 / blackbody_nu 5500 5000)"
    by (simp only: mult.assoc)
  ultimately show ?thesis by (simp only:)
qed

lemma blackbody_nu_boltz:
  "blackbody_nu temperature wave_AA =
     10 ^ 3 * (2 * h_SI * (c_SI / (wave_AA / 10 ^ 10)) ^ 3 / c_SI\<^sup>2 /
       (exp (boltz temperature wave_AA) - 1))"
  by (simp add: blackbody_nu_def boltz_def Let_def)

lemma blackbody_quotient:
  "blackbody_nu 5500 6000 / blackbody_nu 5500 5000 =
     125 / 216 * ((exp (boltz 5500 5000) - 1) / (exp (boltz 5500 6000) - 1))"
proof -
  define e5 where "e5 = exp (boltz 5500 5000) - 1"
  define e6 where "e6 = exp (boltz 5500 6000) - 1"
  define n5 where "n5 = 2 * h_SI * (c_SI / (5000 / 10 ^ 10)) ^ 3 / c_SI\<^sup>2"
  have "0 < boltz 5500 5000" by (simp add: boltz_def h_SI_def c_SI_def k_B_SI_def)
  then have e5: "e5 \<noteq> 0" by (simp add: e5_def)
  have "0 < boltz 5500 6000" by (simp add: boltz_def h_SI_def c_SI_def k_B_SI_def)
  then have e6: "e6 \<noteq> 0" by (simp add: e6_def)
  have n5: "n5 \<noteq> 0" by (simp add: n5_def h_SI_def c_SI_def)
  have n6: "2 * h_SI * (c_SI / (6000 / 10 ^ 10)) ^ 3 / c_SI\<^sup>2 = 125 / 216 * n5"
    by (simp add: n5_def h_SI_def c_SI_def power_divide)
  have "blackbody_nu 5500 6000 = 10 ^ 3 * (125 / 216 * n5 / e6)"
    unfolding blackbody_nu_boltz n6 e6_def ..
  moreover have "blackbody_nu 5500 5000 = 10 ^ 3 * (n5 / e5)"
    unfolding blackbody_nu_boltz n5_def e5_def ..
  ultimately have "blackbody_nu 5500 6000 / blackbody_nu 5500 5000 = 125 / 216 * (e5 / e6)"
    using e5 e6 n5 by simp
  then show ?thesis by (simp only: e5_def e6_def)
qed

lemma boltz_bounds:
  "4 \<le> boltz 5500 6000"
  "8719 / 10000 \<le> boltz 5500 5000 - boltz 5500 6000"
  "boltz 5500 5000 - boltz 5500 6000 \<le> 109 / 125"
  by (simp_all add: boltz_def h_SI_def c_SI_def k_B_SI_def)

lemma exp_4_lower: "53 \<le> exp (4::real)"
proof -
  have "(\<Sum>m<5. 1 ^ m / fact m) \<le> exp (1::real)"
    by (rule exp_lower_poly) simp
  then have "65 / 24 \<le> exp (1::real)"
    by (simp add: eval_nat_numeral)
  then have "(65 / 24) ^ 4 \<le> exp (1::real) ^ 4"
    by (intro power_mono) simp_all
  moreover have "exp (1::real) ^ 4 = exp 4"
    using exp_of_nat_mult [of 4 "1::real"] by simp
  ultimately show ?thesis by (simp add: power_divide)
qed

lemma exp_d_lower: "239 / 100 \<le> exp (8719 / 10000 :: real)"
proof -
  have "(\<Sum>m<8. (8719 / 10000) ^ m / fact m) \<le> exp (8719 / 10000 :: real)"
    by (rule exp_lower_poly) simp
  moreover have "239 / 100 \<le> (\<Sum>m<8. (8719 / 10000 :: real) ^ m / fact m)"
    by (simp add: eval_nat_numeral power_divide)
  ultimately show ?thesis by linarith
qed

lemma exp_d_upper: "exp (109 / 125 :: real) \<le> 2393 / 1000"
proof -
  have "exp (109 / 125 :: real) \<le> (\<Sum>m<8. (109 / 125) ^ m / fact m) + 3 * (109 / 125) ^ 8 / fact 8"
    by (rule exp_upper_poly) simp_all
  moreover have "(\<Sum>m<8. (109 / 125 :: real) ^ m / fact m) + 3 * (109 / 125) ^ 8 / fact 8 \<le> 2393 / 1000"
    by (simp add: eval_nat_numeral power_divide)
  ultimately show ?thesis by linarith
qed

lemma boltzmann_quotient_bounds:
  "239 / 100 \<le> (exp (boltz 5500 5000) - 1) / (exp (boltz 5500 6000) - 1)"
  "(exp (boltz 5500 5000) - 1) / (exp (boltz 5500 6000) - 1) \<le> 243 / 100"
proof -
  define a where "a = exp (boltz 5500 6000)"
  define b where "b = exp (boltz 5500 5000 - boltz 5500 6000)"
  have a: "53 \<le> a"
    using exp_4_lower boltz_bounds(1) unfolding a_def
    by (meson exp_le_cancel_iff order_trans)
  have bl: "239 / 100 \<le> b"
    using exp_d_lower boltz_bounds(2) unfolding b_def
    by (meson exp_le_cancel_iff order_trans)
  have bu: "b \<le> 2393 / 1000"
    using exp_d_upper boltz_bounds(3) unfolding b_def
    by (meson exp_le_cancel_iff order_trans)
  have ab: "exp (boltz 5500 5000) = a * b"
    unfolding a_def b_def by (simp add: exp_add [symmetric])
  have pos: "0 < a - 1" using a by simp
  have "239 / 100 * (a - 1) \<le> b * (a - 1)"
    using bl pos by (intro mult_right_mono) simp_all
  also have "\<dots> \<le> a * b - 1" using bl by (simp add: algebra_simps)
  finally show "239 / 100 \<le> (exp (boltz 5500 5000) - 1) / (exp (boltz 5500 6000) - 1)"
    using pos by (simp add: ab a_def [symmetric] le_divide_eq)
  have "a * b - 1 \<le> a * (2393 / 1000) - 1"
    using bu a by simp
  also have "\<dots> \<le> 243 / 100 * (a - 1)"
    using a by (simp add: algebra_simps)
  finally show "(exp (boltz 5500 5000) - 1) / (exp (boltz 5500 6000) - 1) \<le> 243 / 100"
    using pos by (simp add: ab a_def [symmetric] divide_le_eq)
qed

text \<open>
  C2: the blackbody of 5500 K, normalised to 1 PHOTLAM at 0.5 micron and evaluated at
  0.6 micron in FNU, is within one percent of \<open>4.62 \<times> 10\<^sup>-\<^sup>2\<^sup>3 erg / (s cm\<^sup>2 Hz)\<close>.
\<close>

theorem example2_flux:
  "\<exists>y. example2 = Inr y \<and> \<bar>y - 4.62 / 10 ^ 23\<bar> \<le> 0.01 * (4.62 / 10 ^ 23)"
proof -
  define r where "r = (exp (boltz 5500 5000) - 1) / (exp (boltz 5500 6000) - 1)"
  have r: "239 / 100 \<le> r" "r \<le> 243 / 100"
    using boltzmann_quotient_bounds by (simp_all add: r_def)
  have "example2 = Inr (h_cgs * 5000 * (125 / 216 * r))"
    by (simp only: example2_value blackbody_quotient r_def)
  moreover have "\<bar>h_cgs * 5000 * (125 / 216 * r) - 4.62 / 10 ^ 23\<bar> \<le> 0.01 * (4.62 / 10 ^ 23)"
    using r unfolding abs_le_iff by (simp add: h_cgs_def h_SI_def)
  ultimately show ?thesis by blast
qed

section \<open>Rounding to float64\<close>


























section \<open>The power law in float64\<close>










section \<open>Normalisation in float64\<close>











section \<open>The I magnitude in float64\<close>














end
